theory Spec2Isabelle
  imports Main "HOL-Library.Multiset" "HOL-Library.Sublist"
begin

section \<open>Data model of server.ts\<close>

text \<open>
  The two tables of \<^verbatim>\<open>backup.db\<close>. A TEXT column that holds JSON is kept as what
  \<^verbatim>\<open>JSON.parse\<close> makes of it: the empty text, a text on which the parser throws, or the
  value the text encodes. Timestamps (\<^verbatim>\<open>CURRENT_TIMESTAMP\<close>, second resolution, compared
  as text in the fixed format \<^verbatim>\<open>YYYY-MM-DD HH:MM:SS\<close>) are seconds on the wall clock.
  A path parameter \<^verbatim>\<open>:id\<close> is the integer SQLite compares with the INTEGER key.
\<close>

datatype json =
    JNull
  | JBool bool
  | JNum int
  | JStr string
  | JArr "json list"
  | JObj "(string \<times> json) list"

datatype stored_text = Empty | Malformed | Encodes json

datatype js_error = SyntaxError | TypeError | SqliteError

record task =
  id_t :: int
  name :: string
  source_path :: string
  destination_path :: string
  destination_type :: string
  backup_type :: string
  schedule_days :: "stored_text option"
  schedule_time :: "string option"
  last_run :: "nat option"
  status :: string
  email_notifications :: int

record log =
  id_l :: int
  task_id :: "int option"
  timestamp :: nat
  status_l :: string
  message :: string
  report :: "stored_text option"

record db =
  backup_tasks :: "task list"
  backup_logs :: "log list"
  seq_logs :: int

record file_entry =
  name_f :: string
  size_f :: string
  status_f :: string

section \<open>runBackup\<close>

text \<open>
  Every prepared statement of \<^verbatim>\<open>runBackup\<close> may throw (a store error, or the
  foreign key refusing an insert for a task that is gone); which ones do, the outcome of
  \<^verbatim>\<open>Math.random() > 0.1\<close>, the clock read by each \<^verbatim>\<open>CURRENT_TIMESTAMP\<close> and what the
  rest of the process does to the database while the run awaits its timer are the
  environment of one run. Console output is not part of the state.
\<close>

record run_env =
  fail_set_running :: bool
  fail_log_start :: bool
  fail_log_end :: bool
  fail_set_idle :: bool
  fail_cleanup :: bool
  success :: bool
  t_started :: nat
  t_terminal :: nat
  t_idle :: nat
  during :: "db \<Rightarrow> db"

definition update_running :: "int \<Rightarrow> db \<Rightarrow> db" where
  "update_running i d =
     d\<lparr>backup_tasks := map (\<lambda>t. if id_t t = i then t\<lparr>status := ''RUNNING''\<rparr> else t) (backup_tasks d)\<rparr>"

definition update_idle_last_run :: "nat \<Rightarrow> int \<Rightarrow> db \<Rightarrow> db" where
  "update_idle_last_run now i d =
     d\<lparr>backup_tasks :=
         map (\<lambda>t. if id_t t = i then t\<lparr>status := ''IDLE'', last_run := Some now\<rparr> else t)
           (backup_tasks d)\<rparr>"

definition update_idle :: "int \<Rightarrow> db \<Rightarrow> db" where
  "update_idle i d =
     d\<lparr>backup_tasks := map (\<lambda>t. if id_t t = i then t\<lparr>status := ''IDLE''\<rparr> else t) (backup_tasks d)\<rparr>"

definition insert_log :: "nat \<Rightarrow> int \<Rightarrow> string \<Rightarrow> string \<Rightarrow> stored_text option \<Rightarrow> db \<Rightarrow> db" where
  "insert_log now i st msg rep d =
     d\<lparr>backup_logs := backup_logs d @
          [\<lparr>id_l = seq_logs d + 1, task_id = Some i, timestamp = now,
            status_l = st, message = msg, report = rep\<rparr>],
       seq_logs := seq_logs d + 1\<rparr>"

definition mockFiles :: "bool \<Rightarrow> file_entry list" where
  "mockFiles ok =
     [\<lparr>name_f = ''documento_v1.pdf'', size_f = ''2.4MB'', status_f = ''OK''\<rparr>,
      \<lparr>name_f = ''planilha_financeira.xlsx'', size_f = ''1.1MB'', status_f = ''OK''\<rparr>,
      \<lparr>name_f = ''foto_backup.jpg'', size_f = ''4.8MB'', status_f = (if ok then ''OK'' else ''ERRO'')\<rparr>,
      \<lparr>name_f = ''projeto_final.zip'', size_f = ''156MB'', status_f = (if ok then ''OK'' else ''ERRO'')\<rparr>]"

definition stringify_files :: "file_entry list \<Rightarrow> stored_text" where
  "stringify_files fs =
     Encodes (JArr (map (\<lambda>f. JObj [(''name'', JStr (name_f f)), (''size'', JStr (size_f f)),
                                     (''status'', JStr (status_f f))]) fs))"

text \<open>
  Reading a key of a decoded value, as the log view does with \<^verbatim>\<open>file.status\<close> on each
  element of the parsed report: the value under the key in an object, nothing otherwise.
\<close>

fun property :: "string \<Rightarrow> json \<Rightarrow> json option" where
  "property k (JObj kvs) = map_of kvs k"
| "property k _ = None"

definition status_of :: "bool \<Rightarrow> string" where
  "status_of ok = (if ok then ''SUCESSO'' else ''FALHA'')"

definition message_of :: "bool \<Rightarrow> task \<Rightarrow> string" where
  "message_of ok t =
     (if ok then ''Backup conclu'' @ [CHR 0xC3, CHR 0xAD] @ ''do com sucesso para '' @ destination_path t
      else ''Falha ao acessar '' @ destination_type t @ '' em '' @ destination_path t)"

text \<open>The statements before the \<^verbatim>\<open>await\<close>. \<open>Inl\<close> is the database at the throw.\<close>

definition runBackup_begin :: "run_env \<Rightarrow> task \<Rightarrow> db \<Rightarrow> db + db" where
  "runBackup_begin e t d =
     (if fail_set_running e then Inl d
      else let d1 = update_running (id_t t) d in
        if fail_log_start e then Inl d1
        else Inr (insert_log (t_started e) (id_t t) ''INICIADO''
                    (''Processo de backup iniciado para '' @ source_path t) None d1))"

text \<open>The statements after the \<^verbatim>\<open>await\<close>.\<close>

definition runBackup_resume :: "run_env \<Rightarrow> task \<Rightarrow> db \<Rightarrow> db + db" where
  "runBackup_resume e t d =
     (if fail_log_end e then Inl d
      else let d1 = insert_log (t_terminal e) (id_t t) (status_of (success e))
                      (message_of (success e) t) (Some (stringify_files (mockFiles (success e)))) d in
        if fail_set_idle e then Inl d1
        else Inr (update_idle_last_run (t_idle e) (id_t t) d1))"

text \<open>The \<^verbatim>\<open>catch\<close> block: one more update, its own error swallowed.\<close>

definition runBackup_catch :: "run_env \<Rightarrow> task \<Rightarrow> db \<Rightarrow> db" where
  "runBackup_catch e t d = (if fail_cleanup e then d else update_idle (id_t t) d)"

definition runBackup :: "run_env \<Rightarrow> task \<Rightarrow> db \<Rightarrow> db" where
  "runBackup e t d =
     (case runBackup_begin e t d of
        Inl d1 \<Rightarrow> runBackup_catch e t d1
      | Inr d1 \<Rightarrow>
          (case runBackup_resume e t (during e d1) of
             Inl d2 \<Rightarrow> runBackup_catch e t d2
           | Inr d2 \<Rightarrow> d2))"

definition no_throw :: "run_env \<Rightarrow> bool" where
  "no_throw e \<longleftrightarrow>
     \<not> fail_set_running e \<and> \<not> fail_log_start e \<and> \<not> fail_log_end e \<and> \<not> fail_set_idle e"

text \<open>
  What a caller of \<^verbatim>\<open>runBackup(task)\<close> sees when the call returns its promise: the
  statements up to the \<^verbatim>\<open>await\<close> have run (or the \<^verbatim>\<open>catch\<close> block, if one threw).
\<close>

definition runBackup_call :: "run_env \<Rightarrow> task \<Rightarrow> db \<Rightarrow> db" where
  "runBackup_call e t d =
     (case runBackup_begin e t d of
        Inl d1 \<Rightarrow> runBackup_catch e t d1
      | Inr d1 \<Rightarrow> d1)"

text \<open>The database at the moment a statement of the run threw, if one did.\<close>

definition runBackup_thrown :: "run_env \<Rightarrow> task \<Rightarrow> db \<Rightarrow> db option" where
  "runBackup_thrown e t d =
     (case runBackup_begin e t d of
        Inl d1 \<Rightarrow> Some d1
      | Inr d1 \<Rightarrow>
          (case runBackup_resume e t (during e d1) of
             Inl d2 \<Rightarrow> Some d2
           | Inr d2 \<Rightarrow> None))"

section \<open>The scheduler\<close>

text \<open>
  \<^verbatim>\<open>JSON.parse(task.schedule_days || "[]")\<close>: NULL and the empty text are falsy and
  give the empty array; a text that is not JSON throws.
\<close>

definition parse_days :: "stored_text option \<Rightarrow> js_error + json" where
  "parse_days c =
     (case c of
        None \<Rightarrow> Inr (JArr [])
      | Some Empty \<Rightarrow> Inr (JArr [])
      | Some Malformed \<Rightarrow> Inl SyntaxError
      | Some (Encodes j) \<Rightarrow> Inr j)"

text \<open>
  \<^verbatim>\<open>days.includes(currentDay)\<close>: membership on an array, substring search on a
  string, and a TypeError on every other JSON value (no such method).
\<close>

fun includes_js :: "json \<Rightarrow> string \<Rightarrow> js_error + bool" where
  "includes_js (JArr xs) day = Inr (JStr day \<in> set xs)"
| "includes_js (JStr s) day = Inr (sublist day s)"
| "includes_js _ day = Inl TypeError"

definition is_due :: "string \<Rightarrow> string \<Rightarrow> task \<Rightarrow> js_error + bool" where
  "is_due currentDay currentTime t =
     (case parse_days (schedule_days t) of
        Inl x \<Rightarrow> Inl x
      | Inr days \<Rightarrow>
          (case includes_js days currentDay of
             Inl x \<Rightarrow> Inl x
           | Inr b \<Rightarrow> Inr (b \<and> schedule_time t = Some currentTime)))"

text \<open>
  \<^verbatim>\<open>tasks.forEach\<close>: the tasks handed to \<^verbatim>\<open>runBackup\<close>, in order, and the error that
  ended the loop, if one did.
\<close>

fun forEach_tasks :: "string \<Rightarrow> string \<Rightarrow> task list \<Rightarrow> task list \<times> js_error option" where
  "forEach_tasks currentDay currentTime [] = ([], None)"
| "forEach_tasks currentDay currentTime (t # ts) =
     (case is_due currentDay currentTime t of
        Inl x \<Rightarrow> ([], Some x)
      | Inr b \<Rightarrow>
          (let r = forEach_tasks currentDay currentTime ts
           in ((if b then [t] else []) @ fst r, snd r)))"

text \<open>One tick of \<^verbatim>\<open>cron.schedule\<close>; its \<^verbatim>\<open>catch\<close> logs the error and returns.\<close>

definition scheduler :: "bool \<Rightarrow> string \<Rightarrow> string \<Rightarrow> db \<Rightarrow> task list \<times> js_error option" where
  "scheduler select_throws currentDay currentTime d =
     (if select_throws then ([], Some SqliteError)
      else forEach_tasks currentDay currentTime (backup_tasks d))"

definition dispatched :: "bool \<Rightarrow> string \<Rightarrow> string \<Rightarrow> db \<Rightarrow> task list" where
  "dispatched select_throws currentDay currentTime d = fst (scheduler select_throws currentDay currentTime d)"

section \<open>The routes\<close>

datatype body =
    JsonError string
  | JsonSuccess
  | JsonTasks "task list"
  | JsonLogs "(log \<times> string) list"

record response =
  code :: nat
  payload :: body

datatype request = GetTasks | DeleteTask int | GetLogs | PostRun int | ApiOther

text \<open>
  The inner join of \<^verbatim>\<open>GET /api/logs\<close>, then \<^verbatim>\<open>ORDER BY l.timestamp DESC LIMIT 50\<close>.
  SQL leaves the order of equal timestamps open; the model takes a stable sort.
\<close>

definition joined :: "db \<Rightarrow> (log \<times> string) list" where
  "joined d =
     concat (map (\<lambda>l. map (\<lambda>t. (l, name t))
                    (filter (\<lambda>t. task_id l = Some (id_t t)) (backup_tasks d)))
               (backup_logs d))"

definition order_desc :: "(log \<times> string) list \<Rightarrow> (log \<times> string) list" where
  "order_desc rows = sort_key (\<lambda>r. - int (timestamp (fst r))) rows"

definition select_logs :: "db \<Rightarrow> (log \<times> string) list" where
  "select_logs d = take 50 (order_desc (joined d))"

text \<open>
  \<^verbatim>\<open>DELETE FROM backup_tasks WHERE id = ?\<close>. The column \<^verbatim>\<open>backup_logs.task_id\<close>
  references \<^verbatim>\<open>backup_tasks(id)\<close> with no action on delete, and the engine enforces
  foreign keys: the statement is refused when it would remove a row that a log entry
  references.
\<close>

definition delete_from_tasks :: "int \<Rightarrow> db \<Rightarrow> js_error + db" where
  "delete_from_tasks i d =
     (if (\<exists>t\<in>set (backup_tasks d). id_t t = i) \<and> (\<exists>l\<in>set (backup_logs d). task_id l = Some i)
      then Inl SqliteError
      else Inr (d\<lparr>backup_tasks := filter (\<lambda>t. id_t t \<noteq> i) (backup_tasks d)\<rparr>))"

text \<open>
  One request. \<open>throws\<close> says whether the handler's first statement throws for a
  reason outside the tables (a store error); \<open>e\<close> is the environment of the run a
  manual trigger starts.
\<close>

fun handle :: "bool \<Rightarrow> run_env \<Rightarrow> request \<Rightarrow> db \<Rightarrow> response \<times> db" where
  "handle throws e GetTasks d =
     (if throws then (\<lparr>code = 500, payload = JsonError ''Erro ao buscar tarefas''\<rparr>, d)
      else (\<lparr>code = 200, payload = JsonTasks (backup_tasks d)\<rparr>, d))"
| "handle throws e (DeleteTask i) d =
     (if throws then (\<lparr>code = 500, payload = JsonError ''Erro ao excluir tarefa''\<rparr>, d)
      else (case delete_from_tasks i d of
              Inl x \<Rightarrow> (\<lparr>code = 500, payload = JsonError ''Erro ao excluir tarefa''\<rparr>, d)
            | Inr d1 \<Rightarrow> (\<lparr>code = 200, payload = JsonSuccess\<rparr>, d1)))"
| "handle throws e GetLogs d =
     (if throws then (\<lparr>code = 500, payload = JsonError ''Erro ao buscar logs''\<rparr>, d)
      else (\<lparr>code = 200, payload = JsonLogs (select_logs d)\<rparr>, d))"
| "handle throws e (PostRun i) d =
     (if throws then (\<lparr>code = 500, payload = JsonError ''Erro ao disparar backup''\<rparr>, d)
      else (case find (\<lambda>t. id_t t = i) (backup_tasks d) of
              Some t \<Rightarrow> (\<lparr>code = 200, payload = JsonSuccess\<rparr>, runBackup_call e t d)
            | None \<Rightarrow>
                (\<lparr>code = 404,
                  payload = JsonError (''Tarefa n'' @ [CHR 0xC3, CHR 0xA3] @ ''o encontrada'')\<rparr>, d)))"
| "handle throws e ApiOther d =
     (\<lparr>code = 404,
       payload = JsonError (''Rota de API n'' @ [CHR 0xC3, CHR 0xA3] @ ''o encontrada'')\<rparr>, d)"

text \<open>Sample rows used to run the model.\<close>

definition task1 :: task where
  "task1 = \<lparr>id_t = 1, name = ''docs'', source_path = ''/home/docs'', destination_path = ''/mnt/nas'',
     destination_type = ''NAS'', backup_type = ''FULL'',
     schedule_days = Some (Encodes (JArr [JStr ''Monday''])), schedule_time = Some ''09:00'',
     last_run = None, status = ''IDLE'', email_notifications = 0\<rparr>"

definition task2 :: task where
  "task2 = task1\<lparr>id_t := 2, name := ''photos'', schedule_days := Some Malformed\<rparr>"

definition db1 :: db where
  "db1 = \<lparr>backup_tasks = [task1], backup_logs = [], seq_logs = 0\<rparr>"

definition env_ok :: run_env where
  "env_ok = \<lparr>fail_set_running = False, fail_log_start = False, fail_log_end = False,
     fail_set_idle = False, fail_cleanup = False, success = True,
     t_started = 100, t_terminal = 104, t_idle = 104, during = (\<lambda>d. d)\<rparr>"

definition env_fail :: run_env where
  "env_fail = env_ok\<lparr>success := False\<rparr>"

definition env_fail_end :: run_env where
  "env_fail_end = env_ok\<lparr>fail_log_end := True\<rparr>"

definition env_stuck :: run_env where
  "env_stuck = env_ok\<lparr>fail_log_start := True, fail_cleanup := True\<rparr>"

definition env_retry :: run_env where
  "env_retry = env_ok\<lparr>fail_log_start := True\<rparr>"

definition db2 :: db where
  "db2 = runBackup env_ok task1 db1"

definition task3 :: task where
  "task3 = task1\<lparr>id_t := 3, name := ''music'', schedule_time := Some ''09:01''\<rparr>"

definition db_two :: db where
  "db_two = \<lparr>backup_tasks = [task1, task3], backup_logs = [], seq_logs = 0\<rparr>"

definition task_null :: task where
  "task_null = task1\<lparr>id_t := 2, name := ''mail'', schedule_days := Some (Encodes JNull)\<rparr>"

definition db_null :: db where
  "db_null = \<lparr>backup_tasks = [task1, task_null, task3], backup_logs = [], seq_logs = 0\<rparr>"

definition env_fail_idle :: run_env where
  "env_fail_idle = env_ok\<lparr>fail_set_idle := True\<rparr>"

definition db_three :: db where
  "db_three = \<lparr>backup_tasks = [task1, task2, task3], backup_logs = [], seq_logs = 0\<rparr>"

section \<open>Store operations and the run without a throw\<close>


lemma backup_logs_insert_log:
  "backup_logs (insert_log now i st msg rep d) =
     backup_logs d @ [\<lparr>id_l = seq_logs d + 1, task_id = Some i, timestamp = now,
            status_l = st, message = msg, report = rep\<rparr>]"
  by (simp add: insert_log_def)

lemma backup_logs_update:
  "backup_logs (update_running i d) = backup_logs d"
  "backup_logs (update_idle i d) = backup_logs d"
  "backup_logs (update_idle_last_run now i d) = backup_logs d"
  by (simp_all add: update_running_def update_idle_def update_idle_last_run_def)




lemma runBackup_throws:
  "\<not> no_throw e \<Longrightarrow> \<exists>dx. runBackup_thrown e T d = Some dx \<and> runBackup e T d = runBackup_catch e T dx"
  by (auto simp: no_throw_def runBackup_thrown_def runBackup_def runBackup_begin_def
      runBackup_resume_def Let_def)

lemma update_idle_status:
  assumes "r \<in> set (backup_tasks (update_idle i d))" and "id_t r = i"
  shows "status r = ''IDLE''"
proof -
  from assms(1) have "(\<exists>x. r = x\<lparr>status := ''IDLE''\<rparr>) \<or> id_t r \<noteq> i"
    unfolding update_idle_def by (simp add: image_iff) blast
  with assms(2) obtain x where "r = x\<lparr>status := ''IDLE''\<rparr>" by blast
  then show ?thesis by simp
qed

lemma mockFiles_nonempty: "mockFiles ok \<noteq> []"
  by (simp add: mockFiles_def)

lemma mockFiles_outcomes: "\<forall>f\<in>set (mockFiles ok). status_f f = ''OK'' \<or> status_f f = ''ERRO''"
  by (cases ok) (simp_all add: mockFiles_def)

lemma mockFiles_failure: "\<not> ok \<longrightarrow> (\<exists>f\<in>set (mockFiles ok). status_f f = ''ERRO'')"
  by (simp add: mockFiles_def)

lemma mockFiles_success: "ok \<longrightarrow> (\<forall>f\<in>set (mockFiles ok). status_f f \<noteq> ''ERRO'')"
  by (simp add: mockFiles_def)

lemma find_unknown:
  "\<forall>t\<in>set (backup_tasks d). id_t t \<noteq> i \<Longrightarrow> find (\<lambda>t. id_t t = i) (backup_tasks d) = None"
  by (simp add: find_None_iff)

lemma delete_unknown:
  "\<forall>t\<in>set (backup_tasks d). id_t t \<noteq> i \<Longrightarrow> delete_from_tasks i d = Inr d"
  by (simp add: delete_from_tasks_def)

lemma set_joined:
  "set (joined d) =
     {(l, name t) |l t. l \<in> set (backup_logs d) \<and> t \<in> set (backup_tasks d) \<and> task_id l = Some (id_t t)}"
  by (auto simp: joined_def)

lemma joined_delete:
  assumes "\<not> ((\<exists>t\<in>set (backup_tasks d). id_t t = i) \<and> (\<exists>l\<in>set (backup_logs d). task_id l = Some i))"
  shows "joined (d\<lparr>backup_tasks := filter (\<lambda>t. id_t t \<noteq> i) (backup_tasks d)\<rparr>) = joined d"
proof -
  have "filter (\<lambda>t. task_id l = Some (id_t t)) (filter (\<lambda>t. id_t t \<noteq> i) (backup_tasks d)) =
      filter (\<lambda>t. task_id l = Some (id_t t)) (backup_tasks d)"
    if l: "l \<in> set (backup_logs d)" for l
    unfolding filter_filter
  proof (rule filter_cong [OF refl])
    fix t assume t: "t \<in> set (backup_tasks d)"
    show "(id_t t \<noteq> i \<and> task_id l = Some (id_t t)) = (task_id l = Some (id_t t))"
    proof (cases "id_t t = i")
      case True
      with assms t l have "task_id l \<noteq> Some i" by blast
      with True show ?thesis by simp
    next
      case False
      then show ?thesis by simp
    qed
  qed
  then show ?thesis by (simp add: joined_def cong: map_cong)
qed

lemma filter_unique:
  "distinct (map f xs) \<Longrightarrow> x \<in> set xs \<Longrightarrow> filter (\<lambda>t. k = Some (f t)) xs = [x]"
  if "k = Some (f x)"
  using that
proof (induction xs)
  case Nil
  then show ?case by simp
next
  case (Cons a xs)
  show ?case
  proof (cases "a = x")
    case True
    with Cons.prems have "\<forall>t\<in>set xs. f x \<noteq> f t" by (auto simp: image_iff)
    then have "filter (\<lambda>t. k = Some (f t)) xs = []"
      using Cons.prems(3) by (simp add: filter_empty_conv)
    with True Cons.prems(3) show ?thesis by simp
  next
    case False
    with Cons.prems have x: "x \<in> set xs" and d: "distinct (map f xs)" and n: "f a \<noteq> f x"
      by (auto simp: image_iff)
    from Cons.IH [OF d x Cons.prems(3)] n Cons.prems(3) show ?thesis by simp
  qed
qed

lemma owners_joined:
  assumes "distinct (map id_t ts)"
    and "\<forall>l\<in>set ls. \<exists>t\<in>set ts. task_id l = Some (id_t t)"
  shows "map fst (concat (map (\<lambda>l. map (\<lambda>t. (l, name t))
                    (filter (\<lambda>t. task_id l = Some (id_t t)) ts)) ls)) = ls"
  using assms(2)
proof (induction ls)
  case Nil
  then show ?case by simp
next
  case (Cons l ls)
  then obtain t where t: "t \<in> set ts" "task_id l = Some (id_t t)" by auto
  from filter_unique [OF t(2) assms(1) t(1)] Cons show ?case by simp
qed

lemma sorted_order_desc:
  "sorted_wrt (\<lambda>a b. timestamp (fst b) \<le> timestamp (fst a)) (order_desc rows)"
proof -
  have "sorted (map (\<lambda>r. - int (timestamp (fst r))) (order_desc rows))"
    unfolding order_desc_def by (rule sorted_sort_key)
  then show ?thesis by (simp add: sorted_map)
qed

lemma forEach_tasks_append:
  "\<forall>t\<in>set pre. \<exists>b. is_due day time t = Inr b \<Longrightarrow>
   forEach_tasks day time (pre @ rest) =
     (filter (\<lambda>t. is_due day time t = Inr True) pre @ fst (forEach_tasks day time rest),
      snd (forEach_tasks day time rest))"
proof (induction pre)
  case Nil
  then show ?case by simp
next
  case (Cons a pre)
  then obtain b where b: "is_due day time a = Inr b" by auto
  from Cons have "forEach_tasks day time (pre @ rest) =
     (filter (\<lambda>t. is_due day time t = Inr True) pre @ fst (forEach_tasks day time rest),
      snd (forEach_tasks day time rest))" by simp
  with b show ?case by (cases b) simp_all
qed

lemma forEach_tasks_due:
  "t \<in> set (fst (forEach_tasks day time ts)) \<Longrightarrow> is_due day time t = Inr True"
proof (induction ts)
  case Nil
  then show ?case by simp
next
  case (Cons a ts)
  show ?case
  proof (cases "is_due day time a")
    case (Inl x)
    with Cons.prems show ?thesis by simp
  next
    case (Inr b)
    with Cons show ?thesis by (cases b) (auto simp: Let_def)
  qed
qed

lemma is_due_array:
  "parse_days (schedule_days T) = Inr (JArr (map JStr ds)) \<Longrightarrow>
   is_due day time T = Inr (day \<in> set ds \<and> schedule_time T = Some time)"
  by (auto simp: is_due_def)

lemma is_due_samples:
  "is_due ''Monday'' ''09:00'' task1 = Inr True"
  "is_due ''Monday'' ''09:01'' task1 = Inr False"
  "is_due ''Monday'' ''09:00'' task3 = Inr False"
  "is_due ''Monday'' ''09:01'' task3 = Inr True"
  "is_due ''Monday'' ''09:00'' task2 = Inl SyntaxError"
  by (simp_all add: is_due_def parse_days_def task1_def task2_def task3_def)


lemma backup_logs_catch: "backup_logs (runBackup_catch e T d) = backup_logs d"
  by (simp add: runBackup_catch_def backup_logs_update)

lemma stringify_files_items:
  "stringify_files fs =
     Encodes (JArr (map (\<lambda>f. JObj [(''name'', JStr (name_f f)), (''size'', JStr (size_f f)),
                                     (''status'', JStr (status_f f))]) fs))"
  by (simp add: stringify_files_def)

lemma property_status_entry:
  "property ''status'' (JObj [(''name'', JStr n), (''size'', JStr z), (''status'', JStr st)]) =
     Some (JStr st)"
  by simp

section \<open>The run lifecycle\<close>




text \<open>
  C2, amended. A run whose update to RUNNING and two inserts do not throw appends
  exactly two entries of its own, whether or not a later update throws: INICIADO at its
  start and, after whatever the rest of the process appended in between, one terminal
  entry that is SUCESSO when the draw succeeded and FALHA otherwise. A run whose update
  to RUNNING or whose first insert throws appends nothing; a run whose second insert
  throws appends its INICIADO entry only.
\<close>

theorem runBackup_log_pair:
  assumes "backup_logs (during e (runBackup_call e T d)) = backup_logs (runBackup_call e T d) @ mid"
  shows "(\<not> fail_set_running e \<and> \<not> fail_log_start e \<and> \<not> fail_log_end e \<longrightarrow>
            (\<exists>s tm. backup_logs (runBackup e T d) = backup_logs d @ [s] @ mid @ [tm] \<and>
               status_l s = ''INICIADO'' \<and> task_id s = Some (id_t T) \<and> report s = None \<and>
               status_l tm = (if success e then ''SUCESSO'' else ''FALHA'') \<and>
               task_id tm = Some (id_t T) \<and> timestamp s = t_started e \<and>
               timestamp tm = t_terminal e)) \<and>
         (fail_set_running e \<or> fail_log_start e \<longrightarrow>
            backup_logs (runBackup e T d) = backup_logs d) \<and>
         (\<not> fail_set_running e \<and> \<not> fail_log_start e \<and> fail_log_end e \<longrightarrow>
            (\<exists>s. backup_logs (runBackup e T d) = backup_logs d @ [s] @ mid \<and>
               status_l s = ''INICIADO'' \<and> task_id s = Some (id_t T)))"
proof (intro conjI impI)
  assume a: "\<not> fail_set_running e \<and> \<not> fail_log_start e \<and> \<not> fail_log_end e"
  then have b: "runBackup_begin e T d =
     Inr (insert_log (t_started e) (id_t T) ''INICIADO''
            (''Processo de backup iniciado para '' @ source_path T) None (update_running (id_t T) d))"
    by (simp add: runBackup_begin_def)
  from a have "backup_logs (runBackup e T d) =
      backup_logs (insert_log (t_terminal e) (id_t T) (status_of (success e)) (message_of (success e) T)
          (Some (stringify_files (mockFiles (success e)))) (during e (runBackup_call e T d)))"
    by (simp add: runBackup_def runBackup_call_def b runBackup_resume_def Let_def
        backup_logs_catch backup_logs_update)
  with assms show "\<exists>s tm. backup_logs (runBackup e T d) = backup_logs d @ [s] @ mid @ [tm] \<and>
               status_l s = ''INICIADO'' \<and> task_id s = Some (id_t T) \<and> report s = None \<and>
               status_l tm = (if success e then ''SUCESSO'' else ''FALHA'') \<and>
               task_id tm = Some (id_t T) \<and> timestamp s = t_started e \<and>
               timestamp tm = t_terminal e"
    by (simp add: runBackup_call_def b backup_logs_update backup_logs_insert_log status_of_def)
next
  assume "fail_set_running e \<or> fail_log_start e"
  then show "backup_logs (runBackup e T d) = backup_logs d"
    by (auto simp: runBackup_def runBackup_begin_def Let_def backup_logs_catch backup_logs_update)
next
  assume a: "\<not> fail_set_running e \<and> \<not> fail_log_start e \<and> fail_log_end e"
  then have b: "runBackup_begin e T d =
     Inr (insert_log (t_started e) (id_t T) ''INICIADO''
            (''Processo de backup iniciado para '' @ source_path T) None (update_running (id_t T) d))"
    by (simp add: runBackup_begin_def)
  from a have "backup_logs (runBackup e T d) = backup_logs (during e (runBackup_call e T d))"
    by (simp add: runBackup_def runBackup_call_def b runBackup_resume_def backup_logs_catch)
  with assms show "\<exists>s. backup_logs (runBackup e T d) = backup_logs d @ [s] @ mid \<and>
               status_l s = ''INICIADO'' \<and> task_id s = Some (id_t T)"
    by (simp add: runBackup_call_def b backup_logs_update backup_logs_insert_log)
qed

theorem runBackup_log_pair_witness:
  "backup_logs (during env_fail_idle (runBackup_call env_fail_idle task1 db1)) =
     backup_logs (runBackup_call env_fail_idle task1 db1) @ [] \<and>
   \<not> fail_set_running env_fail_idle \<and> \<not> fail_log_start env_fail_idle \<and>
   \<not> fail_log_end env_fail_idle \<and> fail_set_idle env_fail_idle \<and>
   (\<exists>s tm. backup_logs (runBackup env_fail_idle task1 db1) = backup_logs db1 @ [s] @ [] @ [tm] \<and>
           status_l s = ''INICIADO'' \<and> task_id s = Some (id_t task1) \<and> report s = None \<and>
           status_l tm = ''SUCESSO'' \<and> task_id tm = Some (id_t task1)) \<and>
   fail_log_start env_retry \<and>
   backup_logs (runBackup env_retry task1 db1) = backup_logs db1 \<and>
   fail_log_end env_fail_end \<and>
   (\<exists>s. backup_logs (runBackup env_fail_end task1 db1) = backup_logs db1 @ [s] \<and>
        status_l s = ''INICIADO'')"
proof -
  have h1: "backup_logs (during env_fail_idle (runBackup_call env_fail_idle task1 db1)) =
     backup_logs (runBackup_call env_fail_idle task1 db1) @ []"
    by (simp add: env_fail_idle_def env_ok_def)
  have f1: "\<not> fail_set_running env_fail_idle" "\<not> fail_log_start env_fail_idle"
    "\<not> fail_log_end env_fail_idle" "fail_set_idle env_fail_idle" "success env_fail_idle"
    by (simp_all add: env_fail_idle_def env_ok_def)
  from runBackup_log_pair [OF h1] f1
  have w1: "\<exists>s tm. backup_logs (runBackup env_fail_idle task1 db1) = backup_logs db1 @ [s] @ [] @ [tm] \<and>
           status_l s = ''INICIADO'' \<and> task_id s = Some (id_t task1) \<and> report s = None \<and>
           status_l tm = ''SUCESSO'' \<and> task_id tm = Some (id_t task1)"
    by auto
  have h2: "backup_logs (during env_retry (runBackup_call env_retry task1 db1)) =
     backup_logs (runBackup_call env_retry task1 db1) @ []"
    by (simp add: env_retry_def env_ok_def)
  have f2: "fail_log_start env_retry" by (simp add: env_retry_def env_ok_def)
  from runBackup_log_pair [OF h2] f2
  have w2: "backup_logs (runBackup env_retry task1 db1) = backup_logs db1" by blast
  have h3: "backup_logs (during env_fail_end (runBackup_call env_fail_end task1 db1)) =
     backup_logs (runBackup_call env_fail_end task1 db1) @ []"
    by (simp add: env_fail_end_def env_ok_def)
  have f3: "\<not> fail_set_running env_fail_end" "\<not> fail_log_start env_fail_end"
    "fail_log_end env_fail_end"
    by (simp_all add: env_fail_end_def env_ok_def)
  from runBackup_log_pair [OF h3] f3
  have w3: "\<exists>s. backup_logs (runBackup env_fail_end task1 db1) = backup_logs db1 @ [s] \<and>
        status_l s = ''INICIADO''"
    by auto
  from h1 f1 w1 f2 w2 f3 w3 show ?thesis by blast
qed

text \<open>
  C2 as stated fails: when the insert of the terminal entry throws, the run leaves its
  INICIADO entry and no terminal entry.
\<close>

theorem runBackup_log_pair_counterexample:
  "map status_l (backup_logs (runBackup env_fail_end task1 db1)) = [''INICIADO'']"
  by (simp add: env_fail_end_def env_ok_def task1_def db1_def runBackup_def runBackup_begin_def
      runBackup_resume_def runBackup_catch_def update_running_def update_idle_def insert_log_def)

text \<open>
  C5, amended. When a statement of the run throws, the run ends in the catch block, whose
  one update is attempted on the database as the throw left it. If that update does not
  throw, every row of the task is at status IDLE afterwards and no row is added or
  removed; if it throws too, the error is swallowed and the database stays as the throw
  left it.
\<close>

theorem runBackup_cleanup:
  assumes "\<not> no_throw e"
  shows "\<exists>dx. runBackup_thrown e T d = Some dx \<and> runBackup e T d = runBackup_catch e T dx \<and>
     (\<not> fail_cleanup e \<longrightarrow>
        (\<forall>r\<in>set (backup_tasks (runBackup e T d)). id_t r = id_t T \<longrightarrow> status r = ''IDLE'') \<and>
        map id_t (backup_tasks (runBackup e T d)) = map id_t (backup_tasks dx)) \<and>
     (fail_cleanup e \<longrightarrow> runBackup e T d = dx)"
proof -
  from runBackup_throws [OF assms] obtain dx where
    dx: "runBackup_thrown e T d = Some dx" "runBackup e T d = runBackup_catch e T dx"
    by blast
  have "\<not> fail_cleanup e \<Longrightarrow> r \<in> set (backup_tasks (runBackup e T d)) \<Longrightarrow> id_t r = id_t T \<Longrightarrow>
      status r = ''IDLE''" for r
    using dx(2) by (simp add: runBackup_catch_def update_idle_status)
  moreover have "\<not> fail_cleanup e \<Longrightarrow>
      map id_t (backup_tasks (runBackup e T d)) = map id_t (backup_tasks dx)"
    using dx(2) by (simp add: runBackup_catch_def update_idle_def comp_def if_distrib cong: if_cong)
  moreover have "fail_cleanup e \<Longrightarrow> runBackup e T d = dx"
    using dx(2) by (simp add: runBackup_catch_def)
  ultimately show ?thesis using dx by blast
qed

theorem runBackup_cleanup_witness:
  "\<not> no_throw env_retry \<and>
   runBackup_thrown env_retry task1 db1 = Some (update_running 1 db1) \<and>
   map status (backup_tasks (update_running 1 db1)) = [''RUNNING''] \<and>
   map status (backup_tasks (runBackup env_retry task1 db1)) = [''IDLE'']"
proof -
  have a: "\<not> no_throw env_retry" by (simp add: no_throw_def env_retry_def env_ok_def)
  have b: "runBackup_thrown env_retry task1 db1 = Some (update_running 1 db1)"
    by (simp add: runBackup_thrown_def runBackup_begin_def env_retry_def env_ok_def task1_def)
  have c: "map status (backup_tasks (update_running 1 db1)) = [''RUNNING'']"
    by (simp add: update_running_def db1_def task1_def)
  have d: "\<not> fail_cleanup env_retry" by (simp add: env_retry_def env_ok_def)
  have e: "map id_t (backup_tasks (update_running 1 db1)) = [id_t task1]"
    by (simp add: update_running_def db1_def task1_def)
  from runBackup_cleanup [OF a, of task1 db1] b d e
  have "\<forall>r\<in>set (backup_tasks (runBackup env_retry task1 db1)). id_t r = id_t task1 \<longrightarrow> status r = ''IDLE''"
    and "map id_t (backup_tasks (runBackup env_retry task1 db1)) = [id_t task1]"
    by auto
  then have "map status (backup_tasks (runBackup env_retry task1 db1)) = [''IDLE'']"
    by (cases "backup_tasks (runBackup env_retry task1 db1)") auto
  with a b c show ?thesis by blast
qed

text \<open>
  C5 as stated fails: when the insert of the INICIADO entry throws and the update of the
  catch block throws as well, the run ends with the task at status RUNNING.
\<close>

theorem runBackup_cleanup_counterexample:
  "\<not> no_throw env_stuck \<and> map status (backup_tasks db1) = [''IDLE''] \<and>
   map status (backup_tasks (runBackup env_stuck task1 db1)) = [''RUNNING'']"
  by (simp add: no_throw_def env_stuck_def env_ok_def task1_def db1_def runBackup_def
      runBackup_begin_def runBackup_catch_def update_running_def)

text \<open>
  C8. Whenever the terminal entry is written, the report stored with it decodes to a
  JSON array that is not empty and in which the status of every element is OK or ERRO;
  an element is ERRO when the draw failed (the entry's status is then FALHA), and none is
  when it succeeded (status SUCESSO).
\<close>

theorem terminal_report:
  assumes "\<not> fail_log_end e"
  shows "\<exists>tm items.
           backup_logs (case runBackup_resume e T d of Inl x \<Rightarrow> x | Inr x \<Rightarrow> x) =
             backup_logs d @ [tm] \<and>
           status_l tm = (if success e then ''SUCESSO'' else ''FALHA'') \<and>
           report tm = Some (Encodes (JArr items)) \<and>
           items \<noteq> [] \<and>
           (\<forall>it\<in>set items. property ''status'' it = Some (JStr ''OK'') \<or>
                            property ''status'' it = Some (JStr ''ERRO'')) \<and>
           (\<not> success e \<longrightarrow> (\<exists>it\<in>set items. property ''status'' it = Some (JStr ''ERRO''))) \<and>
           (success e \<longrightarrow> (\<forall>it\<in>set items. property ''status'' it \<noteq> Some (JStr ''ERRO'')))"
proof -
  define g :: "file_entry \<Rightarrow> json" where "g = (\<lambda>f. JObj [(''name'', JStr (name_f f)), (''size'', JStr (size_f f)),
                     (''status'', JStr (status_f f))])"
  define items where "items = map g (mockFiles (success e))"
  define tm where "tm = \<lparr>id_l = seq_logs d + 1, task_id = Some (id_t T), timestamp = t_terminal e,
            status_l = status_of (success e), message = message_of (success e) T,
            report = Some (stringify_files (mockFiles (success e)))\<rparr>"
  have g: "property ''status'' (g f) = Some (JStr (status_f f))" for f
    unfolding g_def by (rule property_status_entry)
  have mem: "\<exists>f\<in>set (mockFiles (success e)). it = g f" if "it \<in> set items" for it
    using that unfolding items_def set_map by (rule imageE) (rule bexI)
  have 1: "backup_logs (case runBackup_resume e T d of Inl x \<Rightarrow> x | Inr x \<Rightarrow> x) = backup_logs d @ [tm]"
    using assms unfolding tm_def
    by (simp add: runBackup_resume_def Let_def backup_logs_insert_log backup_logs_update)
  have 2: "status_l tm = (if success e then ''SUCESSO'' else ''FALHA'')"
    unfolding tm_def by (simp add: status_of_def)
  have 3: "report tm = Some (Encodes (JArr items))"
    unfolding tm_def items_def g_def by (simp add: stringify_files_items)
  have 4: "items \<noteq> []"
    unfolding items_def using mockFiles_nonempty by simp
  have 5: "\<forall>it\<in>set items. property ''status'' it = Some (JStr ''OK'') \<or>
                            property ''status'' it = Some (JStr ''ERRO'')"
  proof
    fix it assume "it \<in> set items"
    from mem [OF this] obtain f where f: "f \<in> set (mockFiles (success e))" "it = g f" by blast
    from f(1) mockFiles_outcomes [of "success e"] have "status_f f = ''OK'' \<or> status_f f = ''ERRO''"
      by blast
    then show "property ''status'' it = Some (JStr ''OK'') \<or>
                            property ''status'' it = Some (JStr ''ERRO'')"
      unfolding f(2) g by simp
  qed
  have 6: "\<not> success e \<longrightarrow> (\<exists>it\<in>set items. property ''status'' it = Some (JStr ''ERRO''))"
  proof
    assume n: "\<not> success e"
    from mockFiles_failure [of "success e"] n obtain f where
      f: "f \<in> set (mockFiles (success e))" "status_f f = ''ERRO''" by blast
    from f(1) have m: "g f \<in> set items" unfolding items_def by simp
    have p: "property ''status'' (g f) = Some (JStr ''ERRO'')" by (simp add: g f(2))
    from p m show "\<exists>it\<in>set items. property ''status'' it = Some (JStr ''ERRO'')"
      by (rule bexI)
  qed
  have 7: "success e \<longrightarrow> (\<forall>it\<in>set items. property ''status'' it \<noteq> Some (JStr ''ERRO''))"
  proof (intro impI ballI)
    fix it assume ok: "success e" and "it \<in> set items"
    from mem [OF this(2)] obtain f where f: "f \<in> set (mockFiles (success e))" "it = g f" by blast
    from ok f(1) mockFiles_success [of "success e"] have "status_f f \<noteq> ''ERRO''" by blast
    then show "property ''status'' it \<noteq> Some (JStr ''ERRO'')"
      unfolding f(2) g by simp
  qed
  show ?thesis
    by (intro exI [of _ tm] exI [of _ items] conjI) (fact 1 2 3 4 5 6 7)+
qed

theorem terminal_report_witness:
  "\<not> fail_log_end env_ok \<and> success env_ok \<and>
   (\<exists>tm items.
      backup_logs (case runBackup_resume env_ok task1 db1 of Inl x \<Rightarrow> x | Inr x \<Rightarrow> x) =
        backup_logs db1 @ [tm] \<and>
      status_l tm = ''SUCESSO'' \<and> report tm = Some (Encodes (JArr items)) \<and> items \<noteq> [] \<and>
      list_all (\<lambda>it. property ''status'' it \<noteq> Some (JStr ''ERRO'')) items) \<and>
   \<not> fail_log_end env_fail \<and> \<not> success env_fail \<and>
   (\<exists>tm items.
      backup_logs (case runBackup_resume env_fail task1 db1 of Inl x \<Rightarrow> x | Inr x \<Rightarrow> x) =
        backup_logs db1 @ [tm] \<and>
      status_l tm = ''FALHA'' \<and> report tm = Some (Encodes (JArr items)) \<and> items \<noteq> [] \<and>
      list_ex (\<lambda>it. property ''status'' it = Some (JStr ''ERRO'')) items)"
proof -
  have a: "\<not> fail_log_end env_ok" by (simp add: env_ok_def)
  have b: "\<not> fail_log_end env_fail" by (simp add: env_fail_def env_ok_def)
  have s: "success env_ok" "\<not> success env_fail" by (simp_all add: env_fail_def env_ok_def)
  from terminal_report [OF a, of task1 db1] obtain tm items where
    1: "backup_logs (case runBackup_resume env_ok task1 db1 of Inl x \<Rightarrow> x | Inr x \<Rightarrow> x) =
        backup_logs db1 @ [tm]"
      "status_l tm = (if success env_ok then ''SUCESSO'' else ''FALHA'')"
      "report tm = Some (Encodes (JArr items))" "items \<noteq> []"
      "success env_ok \<longrightarrow> (\<forall>it\<in>set items. property ''status'' it \<noteq> Some (JStr ''ERRO''))"
    by blast
  from 1(2,5) s(1) have "status_l tm = ''SUCESSO''"
    "list_all (\<lambda>it. property ''status'' it \<noteq> Some (JStr ''ERRO'')) items"
    by (simp_all add: list_all_iff)
  with 1(1,3,4) have w1: "\<exists>tm items.
      backup_logs (case runBackup_resume env_ok task1 db1 of Inl x \<Rightarrow> x | Inr x \<Rightarrow> x) =
        backup_logs db1 @ [tm] \<and>
      status_l tm = ''SUCESSO'' \<and> report tm = Some (Encodes (JArr items)) \<and> items \<noteq> [] \<and>
      list_all (\<lambda>it. property ''status'' it \<noteq> Some (JStr ''ERRO'')) items"
    by blast
  from terminal_report [OF b, of task1 db1] obtain tm' items' where
    2: "backup_logs (case runBackup_resume env_fail task1 db1 of Inl x \<Rightarrow> x | Inr x \<Rightarrow> x) =
        backup_logs db1 @ [tm']"
      "status_l tm' = (if success env_fail then ''SUCESSO'' else ''FALHA'')"
      "report tm' = Some (Encodes (JArr items'))" "items' \<noteq> []"
      "\<not> success env_fail \<longrightarrow> (\<exists>it\<in>set items'. property ''status'' it = Some (JStr ''ERRO''))"
    by blast
  from 2(2,5) s(2) have "status_l tm' = ''FALHA''"
    "list_ex (\<lambda>it. property ''status'' it = Some (JStr ''ERRO'')) items'"
    by (simp_all add: list_ex_iff)
  with 2(1,3,4) have w2: "\<exists>tm items.
      backup_logs (case runBackup_resume env_fail task1 db1 of Inl x \<Rightarrow> x | Inr x \<Rightarrow> x) =
        backup_logs db1 @ [tm] \<and>
      status_l tm = ''FALHA'' \<and> report tm = Some (Encodes (JArr items)) \<and> items \<noteq> [] \<and>
      list_ex (\<lambda>it. property ''status'' it = Some (JStr ''ERRO'')) items"
    by blast
  from a b s w1 w2 show ?thesis by blast
qed

section \<open>Requests\<close>

text \<open>
  C6. A manual trigger for an id that no stored task has leaves both tables as they
  were, so no log entry is written, and, unless the lookup itself throws, answers 404
  with a JSON error.
\<close>

theorem post_run_unknown:
  assumes "\<forall>t\<in>set (backup_tasks d). id_t t \<noteq> i"
  shows "snd (handle throws e (PostRun i) d) = d \<and>
         (\<not> throws \<longrightarrow> fst (handle throws e (PostRun i) d) =
            \<lparr>code = 404, payload = JsonError (''Tarefa n'' @ [CHR 0xC3, CHR 0xA3] @ ''o encontrada'')\<rparr>)"
  using find_unknown [OF assms] by simp

theorem post_run_unknown_witness:
  "7 \<notin> set (map id_t (backup_tasks db2)) \<and>
   snd (handle False env_ok (PostRun 7) db2) = db2 \<and>
   code (fst (handle False env_ok (PostRun 7) db2)) = 404 \<and>
   length (backup_logs db2) = 2"
proof -
  have t: "backup_tasks db2 = [task1\<lparr>last_run := Some 104\<rparr>]"
    by (simp add: db2_def env_ok_def task1_def db1_def runBackup_def runBackup_begin_def
        runBackup_resume_def update_running_def update_idle_last_run_def insert_log_def)
  have l: "length (backup_logs db2) = 2"
    by (simp add: db2_def env_ok_def task1_def db1_def runBackup_def runBackup_begin_def
        runBackup_resume_def update_running_def update_idle_last_run_def insert_log_def)
  have a: "\<forall>t\<in>set (backup_tasks db2). id_t t \<noteq> 7" by (simp add: t task1_def)
  from post_run_unknown [OF a, of False env_ok] t l show ?thesis by (simp add: task1_def)
qed

text \<open>
  C7, amended. For an id that no stored task has, and no store error, the manual trigger
  answers 404 with a JSON error, while the delete answers 200 with the success body and
  leaves the database as it was.
\<close>

theorem unknown_id_routes:
  assumes "\<forall>t\<in>set (backup_tasks d). id_t t \<noteq> i" and "\<not> throws"
  shows "handle throws e (PostRun i) d =
           (\<lparr>code = 404, payload = JsonError (''Tarefa n'' @ [CHR 0xC3, CHR 0xA3] @ ''o encontrada'')\<rparr>, d) \<and>
         handle throws e (DeleteTask i) d = (\<lparr>code = 200, payload = JsonSuccess\<rparr>, d)"
  using find_unknown [OF assms(1)] delete_unknown [OF assms(1)] assms(2) by simp

theorem unknown_id_routes_witness:
  "7 \<notin> set (map id_t (backup_tasks db1)) \<and>
   code (fst (handle False env_ok (PostRun 7) db1)) = 404 \<and>
   handle False env_ok (DeleteTask 7) db1 = (\<lparr>code = 200, payload = JsonSuccess\<rparr>, db1)"
proof -
  have a: "\<forall>t\<in>set (backup_tasks db1). id_t t \<noteq> 7" by (simp add: db1_def task1_def)
  have b: "7 \<notin> set (map id_t (backup_tasks db1))" by (simp add: db1_def task1_def)
  from unknown_id_routes [OF a, of False env_ok] b show ?thesis by simp
qed

text \<open>C7 as stated fails: the delete of an unknown id answers 200 with the success body.\<close>

theorem delete_unknown_counterexample:
  "7 \<notin> set (map id_t (backup_tasks db1)) \<and>
   code (fst (handle False env_ok (DeleteTask 7) db1)) = 200 \<and>
   payload (fst (handle False env_ok (DeleteTask 7) db1)) = JsonSuccess"
proof -
  have "delete_from_tasks 7 db1 = Inr db1"
    by (simp add: delete_from_tasks_def db1_def task1_def)
  then show ?thesis by (simp add: db1_def task1_def)
qed

text \<open>
  C9. A log listing that does not throw answers 200 with the first 50 rows of the join
  of log entries with their tasks, newest first: the rows returned, followed by those left
  out, are the joined rows in an order of non-increasing timestamp, and 50 rows are
  returned when there are that many. The joined rows are the pairs of a log entry and the
  name of the stored task whose id the entry carries; when task ids are distinct and every
  entry has such a task, they are the entries of the log table, one row each.
\<close>

theorem get_logs_latest:
  assumes "\<not> throws"
  shows "\<exists>rows rest. handle throws e GetLogs d = (\<lparr>code = 200, payload = JsonLogs rows\<rparr>, d) \<and>
      mset (rows @ rest) = mset (joined d) \<and>
      sorted_wrt (\<lambda>a b. timestamp (fst b) \<le> timestamp (fst a)) (rows @ rest) \<and>
      length rows = min 50 (length (joined d)) \<and>
      set (joined d) = {(l, name t) |l t. l \<in> set (backup_logs d) \<and> t \<in> set (backup_tasks d) \<and>
                          task_id l = Some (id_t t)} \<and>
      (distinct (map id_t (backup_tasks d)) \<and>
       (\<forall>l\<in>set (backup_logs d). \<exists>t\<in>set (backup_tasks d). task_id l = Some (id_t t)) \<longrightarrow>
         map fst (joined d) = backup_logs d)"
proof -
  let ?s = "order_desc (joined d)"
  have 1: "handle throws e GetLogs d = (\<lparr>code = 200, payload = JsonLogs (take 50 ?s)\<rparr>, d)"
    using assms by (simp add: select_logs_def)
  have 2: "mset (take 50 ?s @ drop 50 ?s) = mset (joined d)"
    by (simp add: order_desc_def)
  have 3: "sorted_wrt (\<lambda>a b. timestamp (fst b) \<le> timestamp (fst a)) (take 50 ?s @ drop 50 ?s)"
    by (simp add: sorted_order_desc)
  have 4: "length (take 50 ?s) = min 50 (length (joined d))"
    by (simp add: order_desc_def min.commute)
  have 5: "distinct (map id_t (backup_tasks d)) \<and>
       (\<forall>l\<in>set (backup_logs d). \<exists>t\<in>set (backup_tasks d). task_id l = Some (id_t t)) \<longrightarrow>
         map fst (joined d) = backup_logs d"
    unfolding joined_def using owners_joined by blast
  from 1 2 3 4 5 set_joined show ?thesis by blast
qed

theorem get_logs_latest_witness:
  "handle False env_ok GetLogs db2 = (\<lparr>code = 200, payload = JsonLogs (select_logs db2)\<rparr>, db2) \<and>
   map timestamp (backup_logs db2) = [100, 104] \<and>
   map (timestamp \<circ> fst) (select_logs db2) = [104, 100] \<and>
   map snd (select_logs db2) = [''docs'', ''docs'']"
proof -
  have t: "backup_tasks db2 = [task1\<lparr>last_run := Some 104\<rparr>]"
    by (simp add: db2_def env_ok_def task1_def db1_def runBackup_def runBackup_begin_def
        runBackup_resume_def update_running_def update_idle_last_run_def insert_log_def)
  have l: "map task_id (backup_logs db2) = [Some 1, Some 1]"
    "map timestamp (backup_logs db2) = [100, 104]"
    by (simp_all add: db2_def env_ok_def task1_def db1_def runBackup_def runBackup_begin_def
        runBackup_resume_def update_running_def update_idle_last_run_def insert_log_def)
  from l obtain a b where ab: "backup_logs db2 = [a, b]" "task_id a = Some 1" "task_id b = Some 1"
    "timestamp a = 100" "timestamp b = 104"
    by (cases "backup_logs db2"; cases "tl (backup_logs db2)") auto
  have s: "select_logs db2 = [(b, ''docs''), (a, ''docs'')]"
    by (simp add: select_logs_def order_desc_def joined_def t ab task1_def)
  have n: "\<not> False" by simp
  from get_logs_latest [OF n, of env_ok db2] s l ab show ?thesis by simp
qed

text \<open>
  C10, amended. A delete never changes the log table: there is no cascade. When no log
  entry references a stored task of the id, a delete that meets no store error removes the
  task rows of that id, nothing else, and answers with the success body. When a log entry
  references a stored task of the id, the foreign key refuses the statement: the route
  answers 500 and the database is as before. No entry is orphaned: the log listing is the
  same after the request as before it.
\<close>

theorem delete_keeps_logs:
  "backup_logs (snd (handle throws e (DeleteTask i) d)) = backup_logs d \<and>
   select_logs (snd (handle throws e (DeleteTask i) d)) = select_logs d \<and>
   (\<not> throws \<and> (\<exists>t\<in>set (backup_tasks d). id_t t = i) \<and>
      (\<exists>l\<in>set (backup_logs d). task_id l = Some i) \<longrightarrow>
        handle throws e (DeleteTask i) d =
          (\<lparr>code = 500, payload = JsonError ''Erro ao excluir tarefa''\<rparr>, d)) \<and>
   (\<not> throws \<and> \<not> ((\<exists>t\<in>set (backup_tasks d). id_t t = i) \<and>
      (\<exists>l\<in>set (backup_logs d). task_id l = Some i)) \<longrightarrow>
        fst (handle throws e (DeleteTask i) d) = \<lparr>code = 200, payload = JsonSuccess\<rparr> \<and>
        backup_tasks (snd (handle throws e (DeleteTask i) d)) =
          filter (\<lambda>t. id_t t \<noteq> i) (backup_tasks d))"
proof -
  let ?fk = "(\<exists>t\<in>set (backup_tasks d). id_t t = i) \<and> (\<exists>l\<in>set (backup_logs d). task_id l = Some i)"
  let ?d = "d\<lparr>backup_tasks := filter (\<lambda>t. id_t t \<noteq> i) (backup_tasks d)\<rparr>"
  have r: "?fk \<Longrightarrow> delete_from_tasks i d = Inl SqliteError"
    by (simp add: delete_from_tasks_def)
  have k: "\<not> ?fk \<Longrightarrow> delete_from_tasks i d = Inr ?d"
    by (simp add: delete_from_tasks_def)
  have j: "\<not> ?fk \<Longrightarrow> select_logs ?d = select_logs d"
    using joined_delete [of d i] by (simp add: select_logs_def)
  show ?thesis
  proof (cases throws)
    case True
    then show ?thesis by simp
  next
    case False
    show ?thesis
    proof (cases ?fk)
      case True
      from r [OF True] True False show ?thesis by simp
    next
      case nofk: False
      from k [OF nofk] j [OF nofk] nofk False show ?thesis by simp
    qed
  qed
qed

theorem delete_keeps_logs_witness:
  "map id_t (backup_tasks db2) = [1] \<and>
   map task_id (backup_logs db2) = [Some 1, Some 1] \<and>
   handle False env_ok (DeleteTask 1) db2 =
     (\<lparr>code = 500, payload = JsonError ''Erro ao excluir tarefa''\<rparr>, db2) \<and>
   map id_t (backup_tasks db1) = [1] \<and> backup_logs db1 = [] \<and>
   fst (handle False env_ok (DeleteTask 1) db1) = \<lparr>code = 200, payload = JsonSuccess\<rparr> \<and>
   backup_tasks (snd (handle False env_ok (DeleteTask 1) db1)) = [] \<and>
   backup_logs (snd (handle False env_ok (DeleteTask 1) db1)) = []"
proof -
  have t: "backup_tasks db2 = [task1\<lparr>last_run := Some 104\<rparr>]"
    by (simp add: db2_def env_ok_def task1_def db1_def runBackup_def runBackup_begin_def
        runBackup_resume_def update_running_def update_idle_last_run_def insert_log_def)
  have l: "map task_id (backup_logs db2) = [Some 1, Some 1]"
    by (simp add: db2_def env_ok_def task1_def db1_def runBackup_def runBackup_begin_def
        runBackup_resume_def update_running_def update_idle_last_run_def insert_log_def)
  then obtain a b where ab: "backup_logs db2 = [a, b]" "task_id a = Some 1" "task_id b = Some 1"
    by (cases "backup_logs db2"; cases "tl (backup_logs db2)") auto
  have fk: "(\<exists>t\<in>set (backup_tasks db2). id_t t = 1) \<and> (\<exists>l\<in>set (backup_logs db2). task_id l = Some 1)"
    by (simp add: t ab task1_def)
  have nofk: "\<not> ((\<exists>t\<in>set (backup_tasks db1). id_t t = 1) \<and>
      (\<exists>l\<in>set (backup_logs db1). task_id l = Some 1))"
    by (simp add: db1_def)
  have n: "\<not> False" by simp
  from delete_keeps_logs [of False env_ok 1 db2] fk n
  have x: "handle False env_ok (DeleteTask 1) db2 =
     (\<lparr>code = 500, payload = JsonError ''Erro ao excluir tarefa''\<rparr>, db2)"
    by blast
  from delete_keeps_logs [of False env_ok 1 db1] nofk n
  have y: "fst (handle False env_ok (DeleteTask 1) db1) = \<lparr>code = 200, payload = JsonSuccess\<rparr>"
    "backup_tasks (snd (handle False env_ok (DeleteTask 1) db1)) =
       filter (\<lambda>t. id_t t \<noteq> 1) (backup_tasks db1)"
    "backup_logs (snd (handle False env_ok (DeleteTask 1) db1)) = backup_logs db1"
    by blast+
  have z: "map id_t (backup_tasks db1) = [1]" "backup_logs db1 = []"
    "filter (\<lambda>t. id_t t \<noteq> 1) (backup_tasks db1) = []"
    by (simp_all add: db1_def task1_def)
  from t l x y z show ?thesis by (simp add: task1_def)
qed

text \<open>
  C10 as stated fails: the delete of a task that has log entries removes nothing and
  answers 500.
\<close>

theorem delete_keeps_logs_counterexample:
  "map id_t (backup_tasks db2) = [1] \<and>
   map task_id (backup_logs db2) = [Some 1, Some 1] \<and>
   code (fst (handle False env_ok (DeleteTask 1) db2)) = 500 \<and>
   snd (handle False env_ok (DeleteTask 1) db2) = db2"
proof -
  have t: "backup_tasks db2 = [task1\<lparr>last_run := Some 104\<rparr>]"
    by (simp add: db2_def env_ok_def task1_def db1_def runBackup_def runBackup_begin_def
        runBackup_resume_def update_running_def update_idle_last_run_def insert_log_def)
  have l: "map task_id (backup_logs db2) = [Some 1, Some 1]"
    by (simp add: db2_def env_ok_def task1_def db1_def runBackup_def runBackup_begin_def
        runBackup_resume_def update_running_def update_idle_last_run_def insert_log_def)
  then obtain a b where ab: "backup_logs db2 = [a, b]" "task_id a = Some 1" "task_id b = Some 1"
    by (cases "backup_logs db2"; cases "tl (backup_logs db2)") auto
  have "delete_from_tasks 1 db2 = Inl SqliteError"
    by (simp add: delete_from_tasks_def t ab task1_def)
  with t l show ?thesis by (simp add: task1_def)
qed

section \<open>Ticks\<close>

text \<open>
  C3, amended. Let T be a task whose schedule days are a JSON array of strings. At
  every tick T is handed to \<open>runBackup\<close> only if the current weekday name is one of its
  days and its schedule time equals the current HH:MM text. It is handed to
  \<open>runBackup\<close> whenever both hold, provided the tick reaches T: the read of the task
  table does not throw and no task stored before T makes the test throw. (A due task
  that the tick does not reach is not dispatched: see the counterexample.)
\<close>

theorem scheduler_dispatch_iff:
  assumes "parse_days (schedule_days T) = Inr (JArr (map JStr ds))"
  shows "(T \<in> set (dispatched select_throws day time d) \<longrightarrow>
            day \<in> set ds \<and> schedule_time T = Some time) \<and>
         (\<not> select_throws \<and>
          (\<exists>pre post. backup_tasks d = pre @ T # post \<and>
             (\<forall>t\<in>set pre. \<exists>b. is_due day time t = Inr b)) \<and>
          day \<in> set ds \<and> schedule_time T = Some time \<longrightarrow>
            T \<in> set (dispatched select_throws day time d))"
proof (intro conjI impI)
  assume "T \<in> set (dispatched select_throws day time d)"
  then have "T \<in> set (fst (forEach_tasks day time (backup_tasks d)))"
    by (cases select_throws) (simp_all add: dispatched_def scheduler_def)
  then have "is_due day time T = Inr True" by (rule forEach_tasks_due)
  with is_due_array [OF assms] show "day \<in> set ds" and "schedule_time T = Some time"
    by simp_all
next
  assume a: "\<not> select_throws \<and>
          (\<exists>pre post. backup_tasks d = pre @ T # post \<and>
             (\<forall>t\<in>set pre. \<exists>b. is_due day time t = Inr b)) \<and>
          day \<in> set ds \<and> schedule_time T = Some time"
  then obtain pre post where p: "backup_tasks d = pre @ T # post"
    "\<forall>t\<in>set pre. \<exists>b. is_due day time t = Inr b"
    by blast
  from a is_due_array [OF assms] have due: "is_due day time T = Inr True" by simp
  have "dispatched select_throws day time d =
      filter (\<lambda>t. is_due day time t = Inr True) pre @ fst (forEach_tasks day time (T # post))"
    using a p(1) forEach_tasks_append [OF p(2)] by (simp add: dispatched_def scheduler_def)
  with due show "T \<in> set (dispatched select_throws day time d)" by (simp add: Let_def)
qed

theorem scheduler_dispatch_iff_witness:
  "map id_t (backup_tasks db_two) = [1, 3] \<and>
   backup_tasks db_two = [task1] @ task3 # [] \<and>
   parse_days (schedule_days task3) = Inr (JArr (map JStr [''Monday''])) \<and>
   schedule_time task3 = Some ''09:01'' \<and>
   is_due ''Monday'' ''09:01'' task1 = Inr False \<and>
   task3 \<in> set (dispatched False ''Monday'' ''09:01'' db_two) \<and>
   task3 \<notin> set (dispatched False ''Monday'' ''09:00'' db_two) \<and>
   task3 \<notin> set (dispatched False ''Tuesday'' ''09:01'' db_two)"
proof -
  have i: "map id_t (backup_tasks db_two) = [1, 3]"
    by (simp add: db_two_def task1_def task3_def)
  have t: "backup_tasks db_two = [task1] @ task3 # []" by (simp add: db_two_def)
  have p: "parse_days (schedule_days task3) = Inr (JArr (map JStr [''Monday'']))"
    by (simp add: parse_days_def task1_def task3_def)
  have s: "schedule_time task3 = Some ''09:01''" by (simp add: task1_def task3_def)
  have q: "\<forall>t\<in>set [task1]. \<exists>b. is_due ''Monday'' ''09:01'' t = Inr b"
    by (auto simp: is_due_samples)
  have m: "''Monday'' \<in> set [''Monday'']" by simp
  from t q have r: "\<exists>pre post. backup_tasks db_two = pre @ task3 # post \<and>
      (\<forall>t\<in>set pre. \<exists>b. is_due ''Monday'' ''09:01'' t = Inr b)"
    by blast
  from scheduler_dispatch_iff [OF p, of False "''Monday''" "''09:01''" db_two] r s m
  have a: "task3 \<in> set (dispatched False ''Monday'' ''09:01'' db_two)" by blast
  from scheduler_dispatch_iff [OF p, of False "''Monday''" "''09:00''" db_two] s
  have b: "task3 \<notin> set (dispatched False ''Monday'' ''09:00'' db_two)" by auto
  from scheduler_dispatch_iff [OF p, of False "''Tuesday''" "''09:01''" db_two]
  have c: "task3 \<notin> set (dispatched False ''Tuesday'' ''09:01'' db_two)" by auto
  from i t p s a b c is_due_samples(2) show ?thesis by blast
qed

text \<open>
  C3 as stated fails: a stored task whose weekday and time both match is not dispatched
  at a tick whose loop has left at a task stored before it, here one whose schedule days
  were stored as JSON null.
\<close>

theorem scheduler_dispatch_iff_counterexample:
  "map id_t (backup_tasks db_null) = [1, 2, 3] \<and>
   backup_tasks db_null = [task1, task_null, task3] \<and>
   schedule_days task3 = Some (Encodes (JArr [JStr ''Monday''])) \<and>
   schedule_time task3 = Some ''09:01'' \<and>
   task3 \<notin> set (dispatched False ''Monday'' ''09:01'' db_null)"
proof -
  have "is_due ''Monday'' ''09:01'' task_null = Inl TypeError"
    by (simp add: is_due_def parse_days_def task_null_def task1_def)
  then have 1: "dispatched False ''Monday'' ''09:01'' db_null = []"
    by (simp add: dispatched_def scheduler_def db_null_def is_due_samples)
  have 2: "map id_t (backup_tasks db_null) = [1, 2, 3]"
    by (simp add: db_null_def task1_def task_null_def task3_def)
  have 3: "backup_tasks db_null = [task1, task_null, task3]"
    by (simp add: db_null_def)
  have 4: "schedule_days task3 = Some (Encodes (JArr [JStr ''Monday'']))"
    "schedule_time task3 = Some ''09:01''"
    by (simp_all add: task1_def task3_def)
  from 1 have 5: "task3 \<notin> set (dispatched False ''Monday'' ''09:01'' db_null)" by simp
  from 2 3 4 5 show ?thesis by blast
qed

text \<open>
  C4, amended. An error in a tick is caught by the tick's one handler and ends that
  tick: when the test of a task throws, the tasks stored before it have been evaluated
  and, if due, dispatched, and neither the faulty task nor any task after it is; when the
  read of the task table throws, no task is evaluated.
\<close>

theorem scheduler_abort:
  assumes "\<forall>t\<in>set pre. \<exists>b. is_due day time t = Inr b"
    and "is_due day time bad = Inl x"
    and "backup_tasks d = pre @ bad # post"
  shows "scheduler False day time d = (filter (\<lambda>t. is_due day time t = Inr True) pre, Some x) \<and>
         scheduler True day time d = ([], Some SqliteError)"
  using forEach_tasks_append [OF assms(1), of "bad # post"] assms(2,3)
  by (simp add: scheduler_def)

theorem scheduler_abort_witness:
  "backup_tasks db_three = [task1] @ task2 # [task3] \<and>
   is_due ''Monday'' ''09:01'' task1 = Inr False \<and>
   is_due ''Monday'' ''09:01'' task2 = Inl SyntaxError \<and>
   is_due ''Monday'' ''09:01'' task3 = Inr True \<and>
   scheduler False ''Monday'' ''09:00'' db_three = ([task1], Some SyntaxError) \<and>
   scheduler False ''Monday'' ''09:01'' db_three = ([], Some SyntaxError) \<and>
   scheduler True ''Monday'' ''09:01'' db_three = ([], Some SqliteError)"
proof -
  have t: "backup_tasks db_three = [task1] @ task2 # [task3]" by (simp add: db_three_def)
  have bad: "is_due ''Monday'' ''09:00'' task2 = Inl SyntaxError"
    "is_due ''Monday'' ''09:01'' task2 = Inl SyntaxError"
    by (simp_all add: is_due_def parse_days_def task2_def)
  have q0: "\<forall>t\<in>set [task1]. \<exists>b. is_due ''Monday'' ''09:00'' t = Inr b"
    by (auto simp: is_due_samples)
  have q1: "\<forall>t\<in>set [task1]. \<exists>b. is_due ''Monday'' ''09:01'' t = Inr b"
    by (auto simp: is_due_samples)
  from scheduler_abort [OF q0 bad(1) t] scheduler_abort [OF q1 bad(2) t] t bad is_due_samples
  show ?thesis by simp
qed

text \<open>
  C4 as stated fails: a task that is due is not evaluated, and so not dispatched, when a
  task stored before it has a schedule text that is not JSON.
\<close>

theorem scheduler_abort_counterexample:
  "map id_t (backup_tasks db_three) = [1, 2, 3] \<and>
   backup_tasks db_three = [task1, task2, task3] \<and>
   schedule_days task2 = Some Malformed \<and>
   is_due ''Monday'' ''09:01'' task3 = Inr True \<and>
   dispatched False ''Monday'' ''09:01'' db_three = []"
proof -
  have "is_due ''Monday'' ''09:01'' task2 = Inl SyntaxError"
    by (simp add: is_due_def parse_days_def task2_def)
  then have 1: "dispatched False ''Monday'' ''09:01'' db_three = []"
    by (simp add: dispatched_def scheduler_def db_three_def is_due_samples)
  have 2: "map id_t (backup_tasks db_three) = [1, 2, 3]"
    by (simp add: db_three_def task1_def task2_def task3_def)
  have 3: "backup_tasks db_three = [task1, task2, task3]"
    by (simp add: db_three_def)
  have 4: "schedule_days task2 = Some Malformed"
    by (simp add: task2_def)
  from 1 2 3 4 is_due_samples(4) show ?thesis by blast
qed

end
